theory Spec2Isabelle
  imports Complex_Main
begin

section \<open>Python values and exceptions\<close>

text \<open>
  The exceptions the modelled functions can raise. A function that raises returns
  \<open>Inl\<close> of the exception; a function that returns normally returns \<open>Inr\<close> of
  its value.
\<close>

datatype py_error =
    ValueError
  | KeyError
  | IndexError
  | TypeError
  | NameError
  | UnboundLocalError
  | AssertionError
  | OSError
  | RuntimeError

text \<open>
  Sequencing: the first exception ends the computation, as a raise does.
\<close>

definition py_bind :: "py_error + 'a \<Rightarrow> ('a \<Rightarrow> py_error + 'b) \<Rightarrow> py_error + 'b" where
  "py_bind m f = (case m of Inl e \<Rightarrow> Inl e | Inr x \<Rightarrow> f x)"

text \<open>
  A list comprehension whose element expression, or whose filter, may raise: the
  elements are visited in order and the first exception ends the comprehension.
\<close>

fun py_map :: "('a \<Rightarrow> py_error + 'b) \<Rightarrow> 'a list \<Rightarrow> py_error + 'b list" where
  "py_map f [] = Inr []"
| "py_map f (x # xs) = py_bind (f x) (\<lambda>y. py_bind (py_map f xs) (\<lambda>ys. Inr (y # ys)))"

fun py_filter :: "('a \<Rightarrow> py_error + bool) \<Rightarrow> 'a list \<Rightarrow> py_error + 'a list" where
  "py_filter p [] = Inr []"
| "py_filter p (x # xs) =
     py_bind (p x) (\<lambda>keep. py_bind (py_filter p xs) (\<lambda>rest. Inr (if keep then x # rest else rest)))"

text \<open>
  Indexing a sequence: a negative index counts from the end, and an index outside the
  sequence raises \<open>IndexError\<close>.
\<close>

definition py_index :: "'a list \<Rightarrow> int \<Rightarrow> py_error + 'a" where
  "py_index xs i =
     (if 0 \<le> i \<and> i < int (length xs) then Inr (xs ! nat i)
      else if i < 0 \<and> - int (length xs) \<le> i then Inr (xs ! nat (int (length xs) + i))
      else Inl IndexError)"

section \<open>SSDLite prediction heads (torchvision/models/detection/ssdlite.py)\<close>

text \<open>
  Layers are represented by their configuration: the numbers that the source passes to
  the layer constructors. \<open>norm_layer\<close> is an opaque callable, kept as a value of
  an arbitrary type \<open>'n\<close>.
\<close>

datatype activation = ReLU6

record 'n conv_norm_activation =
  cna_in_channels :: int
  cna_out_channels :: int
  cna_kernel_size :: int
  cna_stride :: int
  cna_groups :: int
  cna_norm_layer :: 'n
  cna_activation_layer :: activation

record conv2d =
  in_channels :: int
  out_channels :: int
  kernel_size :: int

text \<open>
  \<open>_prediction_block\<close>: a 3x3 depthwise convolution (as many groups as input
  channels, stride 1) followed by a 1x1 projection to \<open>out_channels\<close>.
\<close>

record 'n prediction_block =
  depthwise :: "'n conv_norm_activation"
  projection :: conv2d

definition prediction_block :: "int \<Rightarrow> int \<Rightarrow> int \<Rightarrow> 'n \<Rightarrow> 'n prediction_block" where
  "prediction_block in_ch out_ch ksize norm_layer =
     \<lparr> depthwise = \<lparr> cna_in_channels = in_ch, cna_out_channels = in_ch,
                       cna_kernel_size = ksize, cna_stride = 1, cna_groups = in_ch,
                       cna_norm_layer = norm_layer, cna_activation_layer = ReLU6 \<rparr>,
       projection = \<lparr> in_channels = in_ch, out_channels = out_ch, kernel_size = 1 \<rparr> \<rparr>"

text \<open>
  The number of channels a prediction block emits: a sequential container emits what
  its last layer emits, here the 1x1 projection.
\<close>

definition block_out_channels :: "'n prediction_block \<Rightarrow> int" where
  "block_out_channels b = out_channels (projection b)"

text \<open>
  \<open>SSDScoringHead\<close> keeps the list of per-level modules and the number of columns
  of a prediction. Both SSDLite heads build one prediction block per pair of
  \<open>zip(in_channels, num_anchors)\<close>, in that order; \<open>zip\<close> stops at the shorter
  list.
\<close>

record 'n scoring_head =
  module_list :: "'n prediction_block list"
  num_columns :: int

definition SSDLiteClassificationHead ::
  "int list \<Rightarrow> int list \<Rightarrow> int \<Rightarrow> 'n \<Rightarrow> 'n scoring_head" where
  "SSDLiteClassificationHead in_chs num_anchors num_classes norm_layer =
     \<lparr> module_list =
         map (\<lambda>(channels, anchors). prediction_block channels (num_classes * anchors) 3 norm_layer)
           (zip in_chs num_anchors),
       num_columns = num_classes \<rparr>"

definition SSDLiteRegressionHead :: "int list \<Rightarrow> int list \<Rightarrow> 'n \<Rightarrow> 'n scoring_head" where
  "SSDLiteRegressionHead in_chs num_anchors norm_layer =
     \<lparr> module_list =
         map (\<lambda>(channels, anchors). prediction_block channels (4 * anchors) 3 norm_layer)
           (zip in_chs num_anchors),
       num_columns = 4 \<rparr>"

record 'n ssdlite_head =
  classification_head :: "'n scoring_head"
  regression_head :: "'n scoring_head"
  head_num_classes :: int

definition SSDLiteHead :: "int list \<Rightarrow> int list \<Rightarrow> int \<Rightarrow> 'n \<Rightarrow> 'n ssdlite_head" where
  "SSDLiteHead in_chs num_anchors num_classes norm_layer =
     \<lparr> classification_head = SSDLiteClassificationHead in_chs num_anchors num_classes norm_layer,
       regression_head = SSDLiteRegressionHead in_chs num_anchors norm_layer,
       head_num_classes = num_classes \<rparr>"

section \<open>Classification data lists (torchvision/datasets/datalist.py)\<close>

subsection \<open>Strings and files\<close>

text \<open>
  \<open>str.strip()\<close> removes leading and trailing whitespace; \<open>str.split(' ')\<close>
  cuts at every single space, so a string with \<open>n\<close> spaces gives \<open>n + 1\<close>
  fields and the empty string gives one empty field.
\<close>

definition py_isspace :: "char \<Rightarrow> bool" where
  "py_isspace c = (let n = (of_char c :: nat) in (9 \<le> n \<and> n \<le> 13) \<or> (28 \<le> n \<and> n \<le> 32))"

definition py_strip :: "string \<Rightarrow> string" where
  "py_strip s = rev (dropWhile py_isspace (rev (dropWhile py_isspace s)))"

fun py_split :: "char \<Rightarrow> string \<Rightarrow> string list" where
  "py_split sep [] = [[]]"
| "py_split sep (c # cs) =
     (if c = sep then [] # py_split sep cs
      else (case py_split sep cs of
              [] \<Rightarrow> [[c]]
            | w # ws \<Rightarrow> (c # w) # ws))"

text \<open>
  \<open>open(path).readlines()\<close>: the exception \<open>open\<close> raises, or the lines of
  the file.
\<close>

type_synonym file_system = "string \<Rightarrow> py_error + string list"

text \<open>
  Reading a local variable: a name that is assigned anywhere in a function body is local
  to the whole body, and reading it before its first assignment raises
  \<open>UnboundLocalError\<close>. Reading a name that is neither local nor bound in the module
  raises \<open>NameError\<close>.
\<close>

definition load_local :: "'a option \<Rightarrow> py_error + 'a" where
  "load_local v = (case v of None \<Rightarrow> Inl UnboundLocalError | Some x \<Rightarrow> Inr x)"

definition load_global :: "'a option \<Rightarrow> py_error + 'a" where
  "load_global v = (case v of None \<Rightarrow> Inl NameError | Some x \<Rightarrow> Inr x)"

text \<open>
  The module's global names that the class uses and that the module does not define
  itself: they can only come from \<open>from .folder import *\<close> (a file that is not part
  of the sources), so each is a parameter and may be unbound. \<open>os.path.expanduser\<close>
  and the constructor of the base class \<open>VisionDataset\<close> are parameters as well.
\<close>

record ('t, 'c) module_globals =
  g_find_classes :: "(string \<Rightarrow> py_error + ('c list \<times> ('c \<times> int) list)) option"
  g_split_lines :: "string list option"
  g_has_file_allowed_extension :: "(string \<Rightarrow> string list \<Rightarrow> bool) option"
  g_expanduser :: "string \<Rightarrow> string"
  g_vision_dataset_init :: "string \<Rightarrow> 't option \<Rightarrow> 't option \<Rightarrow> py_error + unit"

subsection \<open>find_classes\<close>

text \<open>
  Lines 34 to 46. The labels are the second fields of the split file's lines, so they are
  strings: \<open>split_line[1]\<close> raises \<open>IndexError\<close> on a line with no space,
  \<open>max(split_labels)\<close> raises \<open>ValueError\<close> on an empty list and is a string
  otherwise, and adding \<open>1\<close> to a string raises \<open>TypeError\<close>. The statements
  after line 40 are never reached.
\<close>

definition find_classes ::
  "file_system \<Rightarrow> string \<Rightarrow> string \<Rightarrow> py_error + (int list \<times> (int \<times> int) list)" where
  "find_classes fs files_path split_file =
     py_bind (fs split_file) (\<lambda>lines.
       let split_lines = map (\<lambda>split_line. py_split (CHR '' '') (py_strip split_line)) lines in
       py_bind (py_map (\<lambda>split_line. py_index split_line 1) split_lines) (\<lambda>split_labels.
         case split_labels of
           [] \<Rightarrow> Inl ValueError
         | _ # _ \<Rightarrow> Inl TypeError))"

subsection \<open>make_dataset\<close>

text \<open>
  Lines 62 to 84, the statements after the first: they run with \<open>directory\<close> bound.
  \<open>find_classes\<close>, \<open>has_file_allowed_extension\<close> and \<open>split_lines\<close> are read
  as global names; \<open>split_lines\<close>, if the module binds it at all, is taken to be a
  list of strings. The function returns \<open>split_lines\<close>, not \<open>instances\<close>.
\<close>

definition make_dataset_body ::
  "('t, 'c) module_globals \<Rightarrow> file_system \<Rightarrow> string \<Rightarrow> string \<Rightarrow> ('c \<times> int) list option \<Rightarrow>
   string list option \<Rightarrow> (string \<Rightarrow> bool) option \<Rightarrow> py_error + string list" where
  "make_dataset_body g fs directory split_file class_to_idx extensions is_valid_file =
     py_bind
       (case class_to_idx of
          None \<Rightarrow> py_bind (load_global (g_find_classes g)) (\<lambda>fc.
                    py_bind (fc directory) (\<lambda>r. Inr (snd r)))
        | Some c2i \<Rightarrow> if c2i = [] then Inl ValueError else Inr c2i)
       (\<lambda>class_to_idx.
          let both_none = (extensions = None \<and> is_valid_file = None);
              both_something = (extensions \<noteq> None \<and> is_valid_file \<noteq> None)
          in if both_none \<or> both_something then Inl ValueError
             else
               let is_valid_file =
                     (case extensions of
                        Some exts \<Rightarrow>
                          (\<lambda>x. py_bind (load_global (g_has_file_allowed_extension g))
                                  (\<lambda>h. Inr (h x exts)))
                      | None \<Rightarrow>
                          (case is_valid_file of
                             Some f \<Rightarrow> (\<lambda>x. Inr (f x))
                           | None \<Rightarrow> (\<lambda>x. Inl TypeError)))
               in py_bind (fs split_file) (\<lambda>instances.
                    py_bind (load_global (g_split_lines g)) (\<lambda>split_lines.
                      py_bind (py_filter
                                 (\<lambda>split_line. py_bind (py_index split_line 0) (\<lambda>c. is_valid_file [c]))
                                 split_lines)
                        (\<lambda>instances. Inr split_lines))))"

text \<open>
  Lines 48 to 84. The first statement, \<open>directory = os.path.expanduser(directory)\<close>,
  reads the local variable \<open>directory\<close>, which is not a parameter and has no value
  yet; the rest of the body runs only if that read succeeds.
\<close>

definition make_dataset ::
  "('t, 'c) module_globals \<Rightarrow> file_system \<Rightarrow> string \<Rightarrow> string \<Rightarrow> ('c \<times> int) list option \<Rightarrow>
   string list option \<Rightarrow> (string \<Rightarrow> bool) option \<Rightarrow> py_error + string list" where
  "make_dataset g fs files_path split_file class_to_idx extensions is_valid_file =
     (let directory = (None :: string option) in
      py_bind (load_local directory) (\<lambda>d.
        make_dataset_body g fs (g_expanduser g d) split_file class_to_idx extensions is_valid_file))"

subsection \<open>DataListClassification.__init__\<close>

record 'l data_list_classification =
  dl_loader :: 'l
  dl_extensions :: "string list option"
  dl_classes :: "int list"
  dl_class_to_idx :: "(int \<times> int) list"
  dl_samples :: "string list"
  dl_targets :: "char list"

text \<open>
  Lines 10 to 32: the base class constructor, \<open>find_classes\<close>, \<open>make_dataset\<close>,
  then the attributes; \<open>targets\<close> holds \<open>s[1]\<close> of every sample.
\<close>

definition DataListClassification_init ::
  "('t, int) module_globals \<Rightarrow> file_system \<Rightarrow> string \<Rightarrow> string \<Rightarrow> 'l \<Rightarrow> string list option \<Rightarrow>
   't option \<Rightarrow> 't option \<Rightarrow> (string \<Rightarrow> bool) option \<Rightarrow> py_error + 'l data_list_classification" where
  "DataListClassification_init g fs files_path split_file loader extensions transform
       target_transform is_valid_file =
     py_bind (g_vision_dataset_init g files_path transform target_transform) (\<lambda>_.
       py_bind (find_classes fs files_path split_file) (\<lambda>found.
         let classes = fst found; class_to_idx = snd found in
         py_bind (make_dataset g fs files_path split_file (Some class_to_idx) extensions is_valid_file)
           (\<lambda>samples.
              py_bind (py_map (\<lambda>s. py_index s 1) samples) (\<lambda>targets.
                Inr \<lparr> dl_loader = loader, dl_extensions = extensions,
                       dl_classes = classes, dl_class_to_idx = class_to_idx,
                       dl_samples = samples, dl_targets = targets \<rparr>))))"

section \<open>SSDLite model construction (torchvision/models/detection/ssdlite.py)\<close>

subsection \<open>Arguments\<close>

text \<open>
  \<open>pretrained\<close> and \<open>pretrained_backbone\<close> are \<open>None\<close>, a \<open>bool\<close> or a
  string (a URL or a checkpoint path; the training script parses both options with
  \<open>str_or_bool\<close>).
\<close>

datatype pyval = PNone | PBool bool | PStr string

definition truthy :: "pyval \<Rightarrow> bool" where
  "truthy v = (case v of PNone \<Rightarrow> False | PBool b \<Rightarrow> b | PStr s \<Rightarrow> s \<noteq> [])"

definition py_or :: "pyval \<Rightarrow> pyval \<Rightarrow> pyval" where
  "py_or a b = (if truthy a then a else b)"

text \<open>
  \<open>weights_name\<close> is looked up in \<open>model_urls\<close>: a string, or any other hashable
  object, such as a function (named here by its \<open>__name__\<close>).
\<close>

datatype weights_key = WeightsName string | FunctionObject string

definition model_urls :: "weights_key \<rightharpoonup> string" where
  "model_urls =
     [WeightsName ''ssdlite320_mobilenet_v3_large_coco'' \<mapsto>
        ''https://download.pytorch.org/models/ssdlite320_mobilenet_v3_large_coco-a79551df.pth'']"

text \<open>
  Keyword arguments beyond the named parameters are a dictionary. Passing a dictionary
  with \<open>**\<close> next to an explicit keyword of the same name, or to a parameter that is
  already bound by position, raises \<open>TypeError\<close>.
\<close>

datatype kwval = KInt int | KNum rat | KNums "rat list" | KBool bool | KOther nat

type_synonym kwargs = "string \<rightharpoonup> kwval"

definition kw_clash :: "kwargs \<Rightarrow> string list \<Rightarrow> bool" where
  "kw_clash kw names = (\<exists>n \<in> set names. kw n \<noteq> None)"

definition kw_pop :: "kwargs \<Rightarrow> string \<Rightarrow> kwval \<Rightarrow> kwval \<times> kwargs" where
  "kw_pop kw k dflt = (case kw k of None \<Rightarrow> (dflt, kw) | Some v \<Rightarrow> (v, kw(k := None)))"

text \<open>
  \<open>norm_layer\<close>: the caller's callable, or the default
  \<open>partial(nn.BatchNorm2d, eps=0.001, momentum=0.03)\<close>.
\<close>

datatype 'n norm = DefaultBatchNorm2d | GivenNorm 'n

record 'n ssdlite_args =
  a_pretrained :: pyval
  a_progress :: bool
  a_num_classes :: int
  a_pretrained_backbone :: pyval
  a_trainable_backbone_layers :: "int option"
  a_norm_layer :: "'n option"
  a_size :: "int list option"
  a_backbone_name :: "string option"
  a_reduce_tail :: bool
  a_weights_name :: weights_key
  a_kwargs :: kwargs

subsection \<open>Effects\<close>

text \<open>
  What a run does besides returning: the warnings it emits and its calls of the
  collaborators, in order. A run is the events so far and either the exception that ended
  it or its value; an exception keeps the events before it.
\<close>

datatype event =
    Warning string
  | MobilenetBuild string pyval bool
  | RetrieveOutChannels "int list"
  | SSDBuild "int list" int
  | DownloadStateDict string
  | TorchLoad string
  | LoadStateDict bool

type_synonym 'a run = "event list \<times> (py_error + 'a)"

definition run_return :: "'a \<Rightarrow> 'a run" where
  "run_return x = ([], Inr x)"

definition run_raise :: "py_error \<Rightarrow> 'a run" where
  "run_raise e = ([], Inl e)"

definition run_emit :: "event \<Rightarrow> unit run" where
  "run_emit ev = ([ev], Inr ())"

definition run_lift :: "py_error + 'a \<Rightarrow> 'a run" where
  "run_lift m = ([], m)"

definition run_bind :: "'a run \<Rightarrow> ('a \<Rightarrow> 'b run) \<Rightarrow> 'b run" where
  "run_bind m f =
     (case snd m of
        Inl e \<Rightarrow> (fst m, Inl e)
      | Inr x \<Rightarrow> (fst m @ fst (f x), snd (f x)))"

subsection \<open>The backbone and the feature extractor\<close>

text \<open>
  A block of the backbone's \<open>features\<close>, by what the source reads or writes of it:
  the \<open>_is_cn\<close> mark, \<open>use_res_connect\<close>, \<open>out_channels\<close>, whether its
  parameters require gradients, and whether \<open>_normal_init\<close> has re-initialised it.
\<close>

record block =
  is_cn :: bool
  use_res_connect :: bool
  blk_out_channels :: int
  requires_grad :: bool
  normal_initialised :: bool

text \<open>
  \<open>_extra_block\<close>: a 1x1 projection to half the output channels, a 3x3 depthwise
  convolution with stride 2, and a 1x1 projection to the output channels.
\<close>

definition extra_block :: "int \<Rightarrow> int \<Rightarrow> 'n \<Rightarrow> 'n conv_norm_activation list" where
  "extra_block in_ch out_ch norm_layer =
     (let intermediate_channels = out_ch div 2 in
      [ \<lparr> cna_in_channels = in_ch, cna_out_channels = intermediate_channels,
          cna_kernel_size = 1, cna_stride = 1, cna_groups = 1,
          cna_norm_layer = norm_layer, cna_activation_layer = ReLU6 \<rparr>,
        \<lparr> cna_in_channels = intermediate_channels, cna_out_channels = intermediate_channels,
          cna_kernel_size = 3, cna_stride = 2, cna_groups = intermediate_channels,
          cna_norm_layer = norm_layer, cna_activation_layer = ReLU6 \<rparr>,
        \<lparr> cna_in_channels = intermediate_channels, cna_out_channels = out_ch,
          cna_kernel_size = 1, cna_stride = 1, cna_groups = 1,
          cna_norm_layer = norm_layer, cna_activation_layer = ReLU6 \<rparr> ])"

record 'n feature_extractor =
  fe_backbone :: "block list"
  fe_c4_pos :: int
  fe_extra :: "'n conv_norm_activation list list"

text \<open>
  \<open>int(x)\<close> of a number truncates towards zero. \<open>width_mult\<close> is a float in the
  source and a rational here.
\<close>

definition py_int :: "rat \<Rightarrow> int" where
  "py_int x = (if 0 \<le> x then \<lfloor>x\<rfloor> else \<lceil>x\<rceil>)"

text \<open>
  \<open>SSDLiteFeatureExtractorMobileNet.__init__\<close>, lines 101 to 121. \<open>width_mult\<close>
  and \<open>min_depth\<close> are bound from the keyword dictionary (defaults 1.0 and 16); the two
  halves of \<open>features\<close> are the backbone cut inside block \<open>c4_pos\<close>, kept here as
  the backbone and the position.
\<close>

definition SSDLiteFeatureExtractorMobileNet ::
  "block list \<Rightarrow> int \<Rightarrow> 'n \<Rightarrow> kwargs \<Rightarrow> py_error + 'n feature_extractor" where
  "SSDLiteFeatureExtractorMobileNet backbone c4_pos norm_layer kw =
     (if kw_clash kw [''backbone'', ''c4_pos'', ''norm_layer''] then Inl TypeError
      else
        py_bind (case kw ''width_mult'' of
                   None \<Rightarrow> Inr 1 | Some (KNum w) \<Rightarrow> Inr w | Some (KInt w) \<Rightarrow> Inr (of_int w)
                 | Some _ \<Rightarrow> Inl TypeError) (\<lambda>width_mult.
        py_bind (case kw ''min_depth'' of
                   None \<Rightarrow> Inr 16 | Some (KInt m) \<Rightarrow> Inr m | Some _ \<Rightarrow> Inl TypeError) (\<lambda>min_depth.
        py_bind (py_index backbone c4_pos) (\<lambda>c4.
          if use_res_connect c4 then Inl AssertionError
          else
            py_bind (py_index backbone (- 1)) (\<lambda>last_block.
              let get_depth = (\<lambda>d. max min_depth (py_int (of_int d * width_mult))) in
              Inr \<lparr> fe_backbone = backbone, fe_c4_pos = c4_pos,
                     fe_extra =
                       [ extra_block (blk_out_channels last_block) (get_depth 512) norm_layer,
                         extra_block (get_depth 512) (get_depth 256) norm_layer,
                         extra_block (get_depth 256) (get_depth 256) norm_layer,
                         extra_block (get_depth 256) (get_depth 128) norm_layer ] \<rparr>)))))"

text \<open>
  \<open>xs[:k]\<close>: the number of leading elements the slice takes.
\<close>

definition py_slice_end :: "'a list \<Rightarrow> int \<Rightarrow> nat" where
  "py_slice_end xs k =
     (let n = int (length xs) in nat (if k < 0 then max 0 (n + k) else min k n))"

text \<open>
  The collaborators of the construction that are not part of the sources, as parameters:
  \<open>_validate_trainable_layers\<close>, the constructors in \<open>mobilenet.__dict__\<close> (each
  returning the \<open>features\<close> of the network it builds), \<open>retrieve_out_channels\<close>,
  the anchor generator's \<open>num_anchors_per_location\<close>, the \<open>SSD\<close> constructor, the
  checkpoint loaders (\<open>model.load_state_dict\<close> with its \<open>strict\<close> flag returns the
  model with the weights loaded), the lookup of a key in a checkpoint, and
  \<open>xnn.utils.is_url\<close>.
\<close>

record anchor_generator =
  ag_aspect_ratios :: "int list list"
  ag_min_ratio :: rat
  ag_max_ratio :: rat

record ('n, 'm, 'sd) collaborators =
  validate_trainable_layers :: "pyval \<Rightarrow> int option \<Rightarrow> int \<Rightarrow> int \<Rightarrow> py_error + int"
  mobilenet_dict :: "string \<rightharpoonup> (pyval \<Rightarrow> bool \<Rightarrow> 'n norm \<Rightarrow> kwargs \<Rightarrow> py_error + block list)"
  retrieve_out_channels :: "'n norm feature_extractor \<Rightarrow> int list \<Rightarrow> py_error + int list"
  num_anchors_per_location :: "anchor_generator \<Rightarrow> int list"
  SSD :: "'n norm feature_extractor \<Rightarrow> anchor_generator \<Rightarrow> int list \<Rightarrow> int \<Rightarrow>
          'n norm ssdlite_head \<Rightarrow> kwargs \<Rightarrow> py_error + 'm"
  load_state_dict_from_url :: "string \<Rightarrow> bool \<Rightarrow> py_error + 'sd"
  torch_load :: "string \<Rightarrow> py_error + 'sd"
  model_load_state_dict :: "'m \<Rightarrow> 'sd \<Rightarrow> bool \<Rightarrow> py_error + 'm"
  state_dict_get :: "'sd \<Rightarrow> string \<Rightarrow> 'sd option"
  is_url :: "string \<Rightarrow> bool"

text \<open>
  \<open>_mobilenet_extractor\<close>, lines 137 to 158: look the constructor up by name, build
  the backbone, re-initialise it unless it is pretrained, find the stage boundaries,
  freeze the blocks before the first trainable stage, and wrap the result.
\<close>

definition mobilenet_extractor ::
  "('n, 'm, 'sd) collaborators \<Rightarrow> string option \<Rightarrow> bool \<Rightarrow> pyval \<Rightarrow> int \<Rightarrow> 'n norm \<Rightarrow> kwargs \<Rightarrow>
   'n norm feature_extractor run" where
  "mobilenet_extractor env backbone_name progress pretrained trainable_layers norm_layer kw =
     run_bind (run_lift (case backbone_name of
                           None \<Rightarrow> Inl KeyError
                         | Some name \<Rightarrow>
                             (case mobilenet_dict env name of
                                None \<Rightarrow> Inl KeyError
                              | Some build \<Rightarrow> Inr (name, build)))) (\<lambda>(name, build).
     run_bind (run_emit (MobilenetBuild name pretrained progress)) (\<lambda>_.
     run_bind (run_lift (build pretrained progress norm_layer kw)) (\<lambda>built.
       let backbone = (if \<not> truthy pretrained
                       then map (\<lambda>b. b\<lparr>normal_initialised := True\<rparr>) built else built);
           stage_indices = [0] @ map int (filter (\<lambda>i. is_cn (backbone ! i)) [0 ..< length backbone])
                             @ [int (length backbone) - 1];
           num_stages = int (length stage_indices)
       in if \<not> (0 \<le> trainable_layers \<and> trainable_layers \<le> num_stages) then run_raise AssertionError
          else
            run_bind (run_lift (if trainable_layers = 0 then Inr (int (length backbone))
                                else py_index stage_indices (num_stages - trainable_layers)))
              (\<lambda>freeze_before.
                 let m = py_slice_end backbone freeze_before;
                     frozen = map (\<lambda>b. b\<lparr>requires_grad := False\<rparr>) (take m backbone) @ drop m backbone
                 in run_bind (run_lift (py_index stage_indices (- 2))) (\<lambda>c4_pos.
                      run_lift (SSDLiteFeatureExtractorMobileNet frozen c4_pos norm_layer kw))))))"

subsection \<open>ssdlite320_mobilenet_v3_large\<close>

text \<open>
  Lines 193 to 230: the construction of the model. The size defaults to (320, 320) with a
  warning; a truthy \<open>pretrained\<close> switches the pretrained backbone off; the backbone,
  the anchor generator (six levels with aspect ratios 2 and 3) and the head are built and
  handed to \<open>SSD\<close> with the defaults merged under the caller's keyword arguments.
\<close>

definition ssdlite320_build ::
  "('n, 'm, 'sd) collaborators \<Rightarrow> 'n ssdlite_args \<Rightarrow> 'm run" where
  "ssdlite320_build env a =
     run_bind (case a_size a of
                 None \<Rightarrow>
                   run_bind (run_emit (Warning ''The size of the model is not provided; using default.''))
                     (\<lambda>_. run_return [320, 320])
               | Some s \<Rightarrow> run_return s) (\<lambda>size.
     run_bind (run_lift (validate_trainable_layers env
                           (py_or (a_pretrained a) (a_pretrained_backbone a))
                           (a_trainable_backbone_layers a) 6 6)) (\<lambda>trainable_backbone_layers.
       let pretrained_backbone =
             (if truthy (a_pretrained a) then PBool False else a_pretrained_backbone a);
           norm_layer = (case a_norm_layer a of None \<Rightarrow> DefaultBatchNorm2d | Some n \<Rightarrow> GivenNorm n)
       in
       run_bind (if kw_clash (a_kwargs a) [''reduced_tail'', ''trainable_layers'']
                 then run_raise TypeError
                 else mobilenet_extractor env (a_backbone_name a) (a_progress a) pretrained_backbone
                        trainable_backbone_layers norm_layer
                        ((a_kwargs a)(''reduced_tail'' \<mapsto> KBool (a_reduce_tail a)))) (\<lambda>backbone.
         let anchor_generator =
               \<lparr> ag_aspect_ratios = replicate 6 [2, 3], ag_min_ratio = 2 / 10, ag_max_ratio = 95 / 100 \<rparr>
         in
         run_bind (run_emit (RetrieveOutChannels size)) (\<lambda>_.
         run_bind (run_lift (retrieve_out_channels env backbone size)) (\<lambda>out_chs.
           let num_anchors = num_anchors_per_location env anchor_generator in
           if length out_chs \<noteq> length (ag_aspect_ratios anchor_generator) then run_raise AssertionError
           else
             let popped_mean = kw_pop (a_kwargs a) ''image_mean'' (KNums [1 / 2, 1 / 2, 1 / 2]);
                 popped_std = kw_pop (snd popped_mean) ''image_std'' (KNums [1 / 2, 1 / 2, 1 / 2]);
                 defaults = [''score_thresh'' \<mapsto> KNum (1 / 1000),
                             ''nms_thresh'' \<mapsto> KNum (55 / 100),
                             ''detections_per_img'' \<mapsto> KInt 300,
                             ''topk_candidates'' \<mapsto> KInt 300,
                             ''image_mean'' \<mapsto> fst popped_mean,
                             ''image_std'' \<mapsto> fst popped_std];
                 kw = defaults ++ snd popped_std
             in
             if kw_clash kw [''head''] then run_raise TypeError
             else
               run_bind (run_emit (SSDBuild size (a_num_classes a))) (\<lambda>_.
                 run_lift (SSD env backbone anchor_generator size (a_num_classes a)
                             (SSDLiteHead out_chs num_anchors (a_num_classes a) norm_layer) kw)))))))"

text \<open>
  \<open>_load_state_dict\<close>, lines 246 to 252: unwrap the checkpoint's \<open>model\<close> and
  \<open>state_dict\<close> entries, load strictly, and on any exception load again leniently.
\<close>

definition load_state_dict :: "('n, 'm, 'sd) collaborators \<Rightarrow> 'm \<Rightarrow> 'sd \<Rightarrow> 'm run" where
  "load_state_dict env model state_dict =
     (let sd1 = (case state_dict_get env state_dict ''model'' of Some inner \<Rightarrow> inner | None \<Rightarrow> state_dict);
          sd2 = (case state_dict_get env sd1 ''state_dict'' of Some inner \<Rightarrow> inner | None \<Rightarrow> sd1)
      in run_bind (run_emit (LoadStateDict True)) (\<lambda>_.
           case model_load_state_dict env model sd2 True of
             Inr loaded \<Rightarrow> run_return loaded
           | Inl _ \<Rightarrow>
               run_bind (run_emit (LoadStateDict False)) (\<lambda>_.
                 run_lift (model_load_state_dict env model sd2 False))))"

text \<open>
  Lines 232 to 243: the weights. \<open>pretrained is True\<close> holds for the Boolean
  \<open>True\<close> only; \<open>is_url\<close> is asked about a string (it is taken to reject anything
  else), and a string that is no URL is a checkpoint path.
\<close>

definition ssdlite320_load ::
  "('n, 'm, 'sd) collaborators \<Rightarrow> 'n ssdlite_args \<Rightarrow> 'm \<Rightarrow> 'm run" where
  "ssdlite320_load env a model =
     (case a_pretrained a of
        PBool True \<Rightarrow>
          (case model_urls (a_weights_name a) of
             None \<Rightarrow> run_raise ValueError
           | Some url \<Rightarrow>
               run_bind (run_emit (DownloadStateDict url)) (\<lambda>_.
               run_bind (run_lift (load_state_dict_from_url env url (a_progress a))) (\<lambda>state_dict.
               run_bind (run_emit (LoadStateDict True)) (\<lambda>_.
                 run_lift (model_load_state_dict env model state_dict True)))))
      | PStr path \<Rightarrow>
          (if is_url env path then
             run_bind (run_emit (DownloadStateDict path)) (\<lambda>_.
             run_bind (run_lift (load_state_dict_from_url env path (a_progress a))) (\<lambda>state_dict.
               load_state_dict env model state_dict))
           else
             run_bind (run_emit (TorchLoad path)) (\<lambda>_.
             run_bind (run_lift (torch_load env path)) (\<lambda>state_dict.
               load_state_dict env model state_dict)))
      | _ \<Rightarrow> run_return model)"

definition ssdlite320_mobilenet_v3_large ::
  "('n, 'm, 'sd) collaborators \<Rightarrow> 'n ssdlite_args \<Rightarrow> 'm run" where
  "ssdlite320_mobilenet_v3_large env a =
     run_bind (ssdlite320_build env a) (\<lambda>model. ssdlite320_load env a model)"

text \<open>
  \<open>ssdlite_mobilenet_v3_large\<close>, lines 255 and 256. The record holds the caller's
  arguments as bound to the parameters of \<open>ssdlite320_mobilenet_v3_large\<close>, with
  \<open>backbone_name\<close> defaulting to \<open>mobilenet_v3_large\<close>; the wrapper passes
  \<open>weights_name\<close> itself, and what it passes is its own function object. A caller who
  passes \<open>weights_name\<close> as well (the second argument here) gets the
  \<open>TypeError\<close> of a keyword given twice.
\<close>

definition wrapper_default_backbone_name :: "string option" where
  "wrapper_default_backbone_name = Some ''mobilenet_v3_large''"

definition ssdlite_mobilenet_v3_large ::
  "('n, 'm, 'sd) collaborators \<Rightarrow> weights_key option \<Rightarrow> 'n ssdlite_args \<Rightarrow> 'm run" where
  "ssdlite_mobilenet_v3_large env callers_weights_name a =
     (case callers_weights_name of
        Some _ \<Rightarrow> run_raise TypeError
      | None \<Rightarrow>
          ssdlite320_mobilenet_v3_large env
            (a\<lparr>a_weights_name := FunctionObject ''ssdlite_mobilenet_v3_large''\<rparr>))"

subsection \<open>An example configuration\<close>

text \<open>
  A small backbone of six blocks with four stage marks, collaborators that succeed, and
  the call \<open>ssdlite_mobilenet_v3_large(pretrained=True, pretrained_backbone=True)\<close>.
\<close>

definition example_block :: "bool \<Rightarrow> bool \<Rightarrow> int \<Rightarrow> block" where
  "example_block cn res ch =
     \<lparr> is_cn = cn, use_res_connect = res, blk_out_channels = ch,
       requires_grad = True, normal_initialised = False \<rparr>"

definition example_backbone :: "block list" where
  "example_backbone =
     [ example_block False False 16, example_block True False 24, example_block True False 40,
       example_block True False 80, example_block True False 160, example_block False False 960 ]"

definition example_env :: "(unit, nat, unit) collaborators" where
  "example_env =
     \<lparr> validate_trainable_layers = (\<lambda>pretrained layers max_value default_value.
          case layers of None \<Rightarrow> Inr default_value
          | Some v \<Rightarrow> if 0 \<le> v \<and> v \<le> max_value then Inr v else Inl AssertionError),
       mobilenet_dict = [''mobilenet_v3_large'' \<mapsto> (\<lambda>pretrained progress norm_layer kw. Inr example_backbone)],
       retrieve_out_channels = (\<lambda>backbone size. Inr [672, 480, 512, 256, 256, 128]),
       num_anchors_per_location = (\<lambda>g. replicate 6 6),
       SSD = (\<lambda>backbone g size num_classes head kw. Inr 0),
       load_state_dict_from_url = (\<lambda>url progress. Inr ()),
       torch_load = (\<lambda>path. Inr ()),
       model_load_state_dict = (\<lambda>model sd strict. Inr (Suc model)),
       state_dict_get = (\<lambda>sd key. None),
       is_url = (\<lambda>s. take 4 s = ''http'') \<rparr>"

definition example_args :: "unit ssdlite_args" where
  "example_args =
     \<lparr> a_pretrained = PBool True, a_progress = True, a_num_classes = 91,
       a_pretrained_backbone = PBool True, a_trainable_backbone_layers = None,
       a_norm_layer = None, a_size = None, a_backbone_name = wrapper_default_backbone_name,
       a_reduce_tail = False, a_weights_name = WeightsName ''ssdlite320_mobilenet_v3_large_coco'',
       a_kwargs = Map.empty \<rparr>"

section \<open>Box geometry and suppression, from the specification\<close>

text \<open>
  The functions \<open>box_iou\<close> and \<open>nms\<close> are only imported by
  \<open>torchvision/ops/__init__.py\<close>; their module \<open>boxes.py\<close> is not part of the
  sources. The definitions of this section follow sections 3, 4.1, 4.4 and 7 of the
  specification.
\<close>

subsection \<open>Boxes and intersection over union\<close>

text \<open>
  Modelled from the spec: the data type Box of section 3 in corner form, with its
  invariant \<open>x_min \<le> x_max\<close>, \<open>y_min \<le> y_max\<close>. Coordinates are real numbers.
\<close>

record box =
  x_min :: real
  y_min :: real
  x_max :: real
  y_max :: real

definition valid_box :: "box \<Rightarrow> bool" where
  "valid_box b = (x_min b \<le> x_max b \<and> y_min b \<le> y_max b)"

text \<open>
  Modelled from the spec: \<open>area(box)\<close> of section 4.1 (missing: \<open>box_area\<close>),
  \<open>(x_max - x_min) * (y_max - y_min)\<close>.
\<close>

definition area :: "box \<Rightarrow> real" where
  "area b = (x_max b - x_min b) * (y_max b - y_min b)"

text \<open>
  Modelled from the spec: the intersection area and the union area that section 4.1
  divides (missing: the body of \<open>box_iou\<close>). The intersection of two boxes is the
  box between the larger of the minima and the smaller of the maxima, empty when that
  is no box; the boxes overlap when it has an interior.
\<close>

definition intersection_area :: "box \<Rightarrow> box \<Rightarrow> real" where
  "intersection_area a b =
     max 0 (min (x_max a) (x_max b) - max (x_min a) (x_min b))
       * max 0 (min (y_max a) (y_max b) - max (y_min a) (y_min b))"

definition union_area :: "box \<Rightarrow> box \<Rightarrow> real" where
  "union_area a b = area a + area b - intersection_area a b"


text \<open>
  Modelled from the spec: \<open>iou(box_a, box_b)\<close> of section 4.1 (missing:
  \<open>box_iou\<close>), the intersection area divided by the union area. A box of negative
  width or height signals \<open>InvalidGeometryError\<close> (section 7). The specification
  does not say what the quotient is when the union area is zero, that is for two boxes
  of zero area; the model keeps that case apart as \<open>DivisionByZero\<close> instead of
  giving it the value that division by zero has in HOL.
\<close>

datatype geometry_error = InvalidGeometryError | DivisionByZero

definition iou :: "box \<Rightarrow> box \<Rightarrow> geometry_error + real" where
  "iou a b =
     (if \<not> valid_box a \<or> \<not> valid_box b then Inl InvalidGeometryError
      else if union_area a b = 0 then Inl DivisionByZero
      else Inr (intersection_area a b / union_area a b))"

subsection \<open>The suppression engine\<close>

text \<open>
  Modelled from the spec: the input of section 4.4 (missing: \<open>nms\<close>), a sequence of
  (box, score) pairs, and the test "IoU with the accepted box exceeds the threshold",
  which an undefined IoU does not pass.
\<close>

record candidate =
  cand_box :: box
  score :: real

definition exceeds :: "real \<Rightarrow> box \<Rightarrow> box \<Rightarrow> bool" where
  "exceeds \<tau> a b = (case iou a b of Inr v \<Rightarrow> \<tau> < v | Inl _ \<Rightarrow> False)"

text \<open>
  Modelled from the spec: the greedy loop of section 4.4 (missing: \<open>nms\<close>) on the
  candidates in descending order of score: accept the first remaining candidate, discard
  every remaining candidate whose IoU with it exceeds the threshold, and repeat until none
  remains or \<open>k\<close> candidates are accepted (\<open>None\<close>: no maximum count).
\<close>

function greedy :: "real \<Rightarrow> nat option \<Rightarrow> candidate list \<Rightarrow> candidate list" where
  "greedy \<tau> k [] = []"
| "greedy \<tau> k (c # cs) =
     (if k = Some 0 then []
      else c # greedy \<tau> (map_option (\<lambda>n. n - 1) k)
                 (filter (\<lambda>d. \<not> exceeds \<tau> (cand_box c) (cand_box d)) cs))"
  by pat_completeness auto
termination
  by (relation "measure (\<lambda>(\<tau>, k, cs). length cs)") (auto simp: less_Suc_eq_le)

text \<open>
  Modelled from the spec: the stable sort by descending score of section 4.4 (ties keep
  their original order), and the suppression engine as the greedy loop after it.
\<close>

definition by_score :: "candidate list \<Rightarrow> candidate list" where
  "by_score cs = sort_key (\<lambda>c. - score c) cs"

definition nms :: "real \<Rightarrow> nat option \<Rightarrow> candidate list \<Rightarrow> candidate list" where
  "nms \<tau> k cs = greedy \<tau> k (by_score cs)"

subsection \<open>Example boxes and candidates\<close>




definition near_origin :: candidate where
  "near_origin = \<lparr> cand_box = \<lparr> x_min = 0, y_min = 0, x_max = 10, y_max = 10 \<rparr>, score = 9 / 10 \<rparr>"

definition shifted :: candidate where
  "shifted = \<lparr> cand_box = \<lparr> x_min = 1, y_min = 1, x_max = 11, y_max = 11 \<rparr>, score = 8 / 10 \<rparr>"

definition far_away :: candidate where
  "far_away = \<lparr> cand_box = \<lparr> x_min = 50, y_min = 50, x_max = 60, y_max = 60 \<rparr>, score = 7 / 10 \<rparr>"

section \<open>Properties of the prediction heads\<close>

lemma cls_module_list_length:
  "length (module_list (SSDLiteClassificationHead in_chs num_anchors num_classes norm_layer))
     = min (length in_chs) (length num_anchors)"
  by (simp add: SSDLiteClassificationHead_def)

lemma reg_module_list_length:
  "length (module_list (SSDLiteRegressionHead in_chs num_anchors norm_layer))
     = min (length in_chs) (length num_anchors)"
  by (simp add: SSDLiteRegressionHead_def)

lemma cls_module_nth:
  assumes "i < length in_chs" and "i < length num_anchors"
  shows "module_list (SSDLiteClassificationHead in_chs num_anchors num_classes norm_layer) ! i
           = prediction_block (in_chs ! i) (num_classes * (num_anchors ! i)) 3 norm_layer"
  using assms by (simp add: SSDLiteClassificationHead_def)

lemma reg_module_nth:
  assumes "i < length in_chs" and "i < length num_anchors"
  shows "module_list (SSDLiteRegressionHead in_chs num_anchors norm_layer) ! i
           = prediction_block (in_chs ! i) (4 * (num_anchors ! i)) 3 norm_layer"
  using assms by (simp add: SSDLiteRegressionHead_def)

text \<open>
  Claim C1. The head has one classification block and one regression block per feature
  level, in the order of \<open>num_anchors\<close> (the anchor generator's level order); at
  level \<open>i\<close> the classification block emits \<open>num_anchors ! i * num_classes\<close>
  channels and the regression block \<open>num_anchors ! i * 4\<close> channels, and both read
  the \<open>i\<close>-th feature map's channels.
\<close>

theorem ssdlite_head_channels:
  assumes "length in_chs = length num_anchors"
  shows "length (module_list (classification_head (SSDLiteHead in_chs num_anchors num_classes norm_layer)))
           = length num_anchors
       \<and> length (module_list (regression_head (SSDLiteHead in_chs num_anchors num_classes norm_layer)))
           = length num_anchors
       \<and> (\<forall>i < length num_anchors.
            block_out_channels
              (module_list (classification_head (SSDLiteHead in_chs num_anchors num_classes norm_layer)) ! i)
              = num_anchors ! i * num_classes
          \<and> block_out_channels
              (module_list (regression_head (SSDLiteHead in_chs num_anchors num_classes norm_layer)) ! i)
              = num_anchors ! i * 4
          \<and> in_channels (projection
              (module_list (classification_head (SSDLiteHead in_chs num_anchors num_classes norm_layer)) ! i))
              = in_chs ! i
          \<and> in_channels (projection
              (module_list (regression_head (SSDLiteHead in_chs num_anchors num_classes norm_layer)) ! i))
              = in_chs ! i)"
  using assms
  by (simp add: SSDLiteHead_def cls_module_list_length reg_module_list_length
      cls_module_nth reg_module_nth block_out_channels_def prediction_block_def)

theorem ssdlite_head_channels_witness:
  "length [672, 480, 512, 256, 256, 128 :: int] = length [6, 6, 6, 6, 6, 6 :: int]
   \<and> map block_out_channels
       (module_list (classification_head
          (SSDLiteHead [672, 480, 512, 256, 256, 128] [6, 6, 6, 6, 6, 6] 91 ())))
       = [546, 546, 546, 546, 546, 546]
   \<and> block_out_channels
       (module_list (regression_head
          (SSDLiteHead [672, 480, 512, 256, 256, 128] [6, 6, 6, 6, 6, 6] 91 ())) ! 5) = 24"
  using ssdlite_head_channels [of "[672, 480, 512, 256, 256, 128]" "[6, 6, 6, 6, 6, 6]" 91 "()"]
  by (simp add: SSDLiteHead_def SSDLiteClassificationHead_def SSDLiteRegressionHead_def
      block_out_channels_def prediction_block_def)

section \<open>Properties of the data list classes\<close>

lemma py_bind_Inl [simp]: "py_bind (Inl e) f = Inl e"
  by (simp add: py_bind_def)

lemma py_bind_Inr [simp]: "py_bind (Inr x) f = f x"
  by (simp add: py_bind_def)

lemma isl_py_bind: "isl (py_bind m f) = (isl m \<or> isl (f (projr m)))"
  by (cases m) simp_all

lemma make_dataset_unbound:
  "make_dataset g fs files_path split_file class_to_idx extensions is_valid_file = Inl UnboundLocalError"
  by (simp add: make_dataset_def load_local_def)

text \<open>
  \<open>find_classes\<close> never returns either: whatever the split file holds, one of the
  statements up to line 40 raises.
\<close>

lemma find_classes_raises: "isl (find_classes fs files_path split_file)"
proof (cases "fs split_file")
  case (Inl e)
  then show ?thesis by (simp add: find_classes_def)
next
  case (Inr lines)
  show ?thesis
  proof (cases "py_map (\<lambda>split_line. py_index split_line 1)
                  (map (\<lambda>split_line. py_split (CHR '' '') (py_strip split_line)) lines)")
    case (Inl e)
    with Inr show ?thesis by (simp add: find_classes_def)
  next
    case inner: (Inr split_labels)
    with Inr show ?thesis by (cases split_labels) (simp_all add: find_classes_def)
  qed
qed

text \<open>
  Claim C9. \<open>make_dataset\<close> raises on every invocation, whatever its arguments, the
  file system and the module's globals: its first statement reads the local variable
  \<open>directory\<close> before any assignment, which is an \<open>UnboundLocalError\<close>. So it
  never returns a sample list, and constructing a \<open>DataListClassification\<close> always
  ends in an exception.
\<close>

theorem make_dataset_always_raises:
  "make_dataset g fs files_path split_file class_to_idx extensions is_valid_file = Inl UnboundLocalError
   \<and> (\<nexists>samples. make_dataset g fs files_path split_file class_to_idx extensions is_valid_file
          = Inr samples)
   \<and> isl (DataListClassification_init g' fs' files_path' split_file' loader extensions' transform
          target_transform is_valid_file')"
proof -
  have "isl (DataListClassification_init g' fs' files_path' split_file' loader extensions' transform
          target_transform is_valid_file')"
  proof (cases "g_vision_dataset_init g' files_path' transform target_transform")
    case (Inl e)
    then show ?thesis by (simp add: DataListClassification_init_def)
  next
    case base: (Inr u)
    show ?thesis
    proof (cases "find_classes fs' files_path' split_file'")
      case (Inl e)
      with base show ?thesis by (simp add: DataListClassification_init_def)
    next
      case (Inr found)
      with base show ?thesis
        by (simp add: DataListClassification_init_def Let_def make_dataset_unbound)
    qed
  qed
  then show ?thesis by (simp add: make_dataset_unbound)
qed

theorem make_dataset_always_raises_witness:
  "make_dataset
     \<lparr> g_find_classes = None, g_split_lines = Some [''a.png 0'', ''b.png 1''],
       g_has_file_allowed_extension = Some (\<lambda>x exts. True), g_expanduser = id,
       g_vision_dataset_init = (\<lambda>root (t :: unit option) tt. Inr ()) \<rparr>
     (\<lambda>path. Inr [''a.png 0'', ''b.png 1'']) ''data'' ''split.txt'' (Some [(0 :: int, 0)])
     (Some [''.png'']) None = Inl UnboundLocalError
   \<and> (\<nexists>samples. make_dataset
     \<lparr> g_find_classes = None, g_split_lines = Some [''a.png 0'', ''b.png 1''],
       g_has_file_allowed_extension = Some (\<lambda>x exts. True), g_expanduser = id,
       g_vision_dataset_init = (\<lambda>root (t :: unit option) tt. Inr ()) \<rparr>
     (\<lambda>path. Inr [''a.png 0'', ''b.png 1'']) ''data'' ''split.txt'' (Some [(0 :: int, 0)])
     (Some [''.png'']) None = Inr samples)
   \<and> isl (DataListClassification_init
     \<lparr> g_find_classes = None, g_split_lines = Some [''a.png 0'', ''b.png 1''],
       g_has_file_allowed_extension = Some (\<lambda>x exts. True), g_expanduser = id,
       g_vision_dataset_init = (\<lambda>root (t :: unit option) tt. Inr ()) \<rparr>
     (\<lambda>path. Inr [''a.png 0'', ''b.png 1'']) ''data'' ''split.txt'' () (Some [''.png''])
     None None None)"
  by (rule make_dataset_always_raises)

section \<open>Properties of the model construction\<close>


lemma snd_run_bind:
  "snd (run_bind m f) = (case snd m of Inl e \<Rightarrow> Inl e | Inr x \<Rightarrow> snd (f x))"
  by (simp add: run_bind_def split: sum.splits)


lemma run_simps [simp]:
  "fst (run_return x) = []" "snd (run_return x) = Inr x"
  "fst (run_raise e) = []" "snd (run_raise e) = Inl e"
  "fst (run_emit ev) = [ev]" "snd (run_emit ev) = Inr ()"
  "fst (run_lift r) = []" "snd (run_lift r) = r"
  by (simp_all add: run_return_def run_raise_def run_emit_def run_lift_def)







lemma build_ignores_weights_name:
  "ssdlite320_build env (a\<lparr>a_weights_name := k\<rparr>) = ssdlite320_build env a"
  by (simp add: ssdlite320_build_def Let_def cong: if_cong option.case_cong sum.case_cong)



text \<open>
  Claim C8, as amended. A call of \<open>ssdlite_mobilenet_v3_large\<close> with
  \<open>pretrained=True\<close> never returns a model. If the caller passes \<open>weights_name\<close>
  the call raises \<open>TypeError\<close>; otherwise it raises whatever the construction of the
  model raises, and \<open>ValueError\<close> as soon as the construction succeeds, because the
  function object the wrapper passes as \<open>weights_name\<close> is no key of
  \<open>model_urls\<close>.
\<close>

theorem wrapper_pretrained_never_returns:
  assumes "a_pretrained a = PBool True"
  shows "isl (snd (ssdlite_mobilenet_v3_large env w a))
       \<and> (w \<noteq> None \<longrightarrow> snd (ssdlite_mobilenet_v3_large env w a) = Inl TypeError)
       \<and> (w = None \<longrightarrow>
            snd (ssdlite_mobilenet_v3_large env w a)
              = (case snd (ssdlite320_build env a) of
                   Inl e \<Rightarrow> Inl e
                 | Inr model \<Rightarrow> Inl ValueError))"
proof -
  have url: "model_urls (FunctionObject ''ssdlite_mobilenet_v3_large'') = None"
    by (simp add: model_urls_def)
  have load: "snd (ssdlite320_load env
                 (a\<lparr>a_weights_name := FunctionObject ''ssdlite_mobilenet_v3_large''\<rparr>) model)
               = Inl ValueError" for model
    using assms by (simp add: ssdlite320_load_def url)
  have main: "snd (ssdlite_mobilenet_v3_large env None a)
              = (case snd (ssdlite320_build env a) of
                   Inl e \<Rightarrow> Inl e
                 | Inr model \<Rightarrow> Inl ValueError)"
    by (simp add: ssdlite_mobilenet_v3_large_def ssdlite320_mobilenet_v3_large_def snd_run_bind
        build_ignores_weights_name load split: sum.splits)
  have clash: "snd (ssdlite_mobilenet_v3_large env (Some k) a) = Inl TypeError" for k
    by (simp add: ssdlite_mobilenet_v3_large_def)
  show ?thesis
  proof (cases w)
    case None
    then show ?thesis using main by (auto split: sum.splits)
  next
    case (Some k)
    then show ?thesis using clash [of k] by simp
  qed
qed

theorem wrapper_pretrained_never_returns_witness:
  "a_pretrained example_args = PBool True
   \<and> snd (ssdlite320_build example_env example_args) = Inr 0
   \<and> snd (ssdlite_mobilenet_v3_large example_env None example_args) = Inl ValueError"
proof -
  have h: "a_pretrained example_args = PBool True" by (simp add: example_args_def)
  have b: "snd (ssdlite320_build example_env example_args) = Inr 0" by code_simp
  show ?thesis using wrapper_pretrained_never_returns [OF h, of example_env None] h b by simp
qed

text \<open>
  The claim as first stated, that every such call raises \<open>ValueError\<close>, fails: with
  a backbone name that \<open>mobilenet.__dict__\<close> does not hold, the call ends in
  \<open>KeyError\<close> before the weights are looked up.
\<close>

theorem wrapper_pretrained_other_exception:
  "a_pretrained (example_args\<lparr>a_backbone_name := Some ''resnet50''\<rparr>) = PBool True
   \<and> snd (ssdlite_mobilenet_v3_large example_env None
            (example_args\<lparr>a_backbone_name := Some ''resnet50''\<rparr>)) = Inl KeyError
   \<and> snd (ssdlite_mobilenet_v3_large example_env None
            (example_args\<lparr>a_backbone_name := Some ''resnet50''\<rparr>)) \<noteq> Inl ValueError"
  by code_simp


section \<open>Properties of the box geometry\<close>

lemma intersection_area_commute: "intersection_area a b = intersection_area b a"
  by (simp add: intersection_area_def max.commute min.commute)

lemma union_area_commute: "union_area a b = union_area b a"
  by (simp add: union_area_def intersection_area_commute [of a b])

lemma iou_commute: "iou a b = iou b a"
  by (simp add: iou_def union_area_commute [of a b] intersection_area_commute [of a b] disj_commute)














section \<open>Properties of the suppression engine\<close>

lemma exceeds_commute: "exceeds \<tau> a b = exceeds \<tau> b a"
  by (simp add: exceeds_def iou_commute [of a b])

lemma greedy_subset: "set (greedy \<tau> k cs) \<subseteq> set cs"
  by (induction \<tau> k cs rule: greedy.induct) auto

lemma greedy_length: "length (greedy \<tau> k cs) \<le> length cs"
proof (induction \<tau> k cs rule: greedy.induct)
  case (1 \<tau> k)
  then show ?case by simp
next
  case (2 \<tau> k c cs)
  have "length (filter (\<lambda>d. \<not> exceeds \<tau> (cand_box c) (cand_box d)) cs) \<le> length cs"
    by simp
  with 2 show ?case by (auto intro: le_SucI order_trans)
qed

lemma greedy_budget: "length (greedy \<tau> (Some n) cs) \<le> n"
proof (induction n arbitrary: cs)
  case 0
  show ?case by (cases cs) simp_all
next
  case (Suc n)
  show ?case
  proof (cases cs)
    case Nil
    then show ?thesis by simp
  next
    case (Cons c rest)
    have "greedy \<tau> (Some (Suc n)) (c # rest)
            = c # greedy \<tau> (Some n) (filter (\<lambda>d. \<not> exceeds \<tau> (cand_box c) (cand_box d)) rest)"
      by simp
    with Cons Suc.IH [of "filter (\<lambda>d. \<not> exceeds \<tau> (cand_box c) (cand_box d)) rest"]
    show ?thesis by simp
  qed
qed

lemma greedy_Cons:
  "greedy \<tau> k (c # rest) =
     (if k = Some 0 then []
      else c # greedy \<tau> (map_option (\<lambda>n. n - 1) k)
                 (filter (\<lambda>d. \<not> exceeds \<tau> (cand_box c) (cand_box d)) rest))"
  by (rule greedy.simps)

lemma greedy_sorted_wrt:
  "sorted_wrt P cs \<Longrightarrow> sorted_wrt P (greedy \<tau> k cs)"
proof (induction "length cs" arbitrary: cs k rule: less_induct)
  case less
  show ?case
  proof (cases cs)
    case Nil
    then show ?thesis by simp
  next
    case (Cons c rest)
    let ?f = "filter (\<lambda>d. \<not> exceeds \<tau> (cand_box c) (cand_box d)) rest"
    let ?k = "map_option (\<lambda>n. n - 1) k"
    have len: "length ?f < length cs" using Cons by (simp add: less_Suc_eq_le)
    have srt: "sorted_wrt P ?f" using less.prems Cons by (simp add: sorted_wrt_filter)
    have ih: "sorted_wrt P (greedy \<tau> ?k ?f)" by (rule less.hyps [OF len srt])
    have "set (greedy \<tau> ?k ?f) \<subseteq> set rest" using greedy_subset [of \<tau> ?k ?f] by auto
    moreover have "\<forall>d \<in> set rest. P c d" using less.prems Cons by simp
    ultimately have all: "\<forall>d \<in> set (greedy \<tau> ?k ?f). P c d" by blast
    show ?thesis
    proof (cases "k = Some 0")
      case True
      then have "greedy \<tau> k cs = []" unfolding Cons by (subst greedy_Cons) simp
      then show ?thesis by simp
    next
      case False
      then have "greedy \<tau> k cs = c # greedy \<tau> ?k ?f" unfolding Cons by (subst greedy_Cons) simp
      then show ?thesis using ih all by simp
    qed
  qed
qed

lemma greedy_no_overlap:
  "sorted_wrt (\<lambda>c d. \<not> exceeds \<tau> (cand_box c) (cand_box d)) (greedy \<tau> k cs)"
proof (induction "length cs" arbitrary: cs k rule: less_induct)
  case less
  show ?case
  proof (cases cs)
    case Nil
    then show ?thesis by simp
  next
    case (Cons c rest)
    define f where "f = filter (\<lambda>d. \<not> exceeds \<tau> (cand_box c) (cand_box d)) rest"
    define k' where "k' = map_option (\<lambda>n. n - 1) k"
    have len: "length f < length cs" using Cons by (simp add: f_def less_Suc_eq_le)
    have ih: "sorted_wrt (\<lambda>c d. \<not> exceeds \<tau> (cand_box c) (cand_box d)) (greedy \<tau> k' f)"
      by (rule less.hyps [OF len])
    have all: "\<forall>d \<in> set (greedy \<tau> k' f). \<not> exceeds \<tau> (cand_box c) (cand_box d)"
    proof
      fix d
      assume "d \<in> set (greedy \<tau> k' f)"
      then have "d \<in> set f" using greedy_subset [of \<tau> k' f] by (rule rev_subsetD)
      then show "\<not> exceeds \<tau> (cand_box c) (cand_box d)" by (simp add: f_def)
    qed
    have step: "greedy \<tau> k (c # rest) = (if k = Some 0 then [] else c # greedy \<tau> k' f)"
      unfolding f_def k'_def by (rule greedy_Cons)
    show ?thesis
    proof (cases "k = Some 0")
      case True
      with step Cons show ?thesis by simp
    next
      case False
      with step Cons have "greedy \<tau> k cs = c # greedy \<tau> k' f" by simp
      then show ?thesis using ih all by simp
    qed
  qed
qed

lemma by_score_descending: "sorted_wrt (\<lambda>c d. score d \<le> score c) (by_score cs)"
proof -
  have "sorted (map (\<lambda>c. - score c) (by_score cs))"
    unfolding by_score_def by (rule sorted_sort_key)
  then show ?thesis by (simp add: sorted_map)
qed

text \<open>
  Claim C3. The output of the suppression engine is a subset of its input, is ordered by
  descending score, holds no two candidates whose IoU exceeds the threshold (in either
  order), and is at most as long as the input and at most \<open>k\<close> long when a maximum
  count \<open>k\<close> is given.
\<close>

theorem nms_guarantees:
  "set (nms \<tau> k cs) \<subseteq> set cs
   \<and> sorted_wrt (\<lambda>c d. score d \<le> score c) (nms \<tau> k cs)
   \<and> (\<forall>i j. i < j \<and> j < length (nms \<tau> k cs) \<longrightarrow>
         \<not> exceeds \<tau> (cand_box (nms \<tau> k cs ! i)) (cand_box (nms \<tau> k cs ! j))
       \<and> \<not> exceeds \<tau> (cand_box (nms \<tau> k cs ! j)) (cand_box (nms \<tau> k cs ! i)))
   \<and> length (nms \<tau> k cs) \<le> length cs
   \<and> (\<forall>n. k = Some n \<longrightarrow> length (nms \<tau> k cs) \<le> n)"
proof -
  have sub: "set (nms \<tau> k cs) \<subseteq> set cs"
    using greedy_subset [of \<tau> k "by_score cs"] by (simp add: nms_def by_score_def)
  have ord: "sorted_wrt (\<lambda>c d. score d \<le> score c) (nms \<tau> k cs)"
    using greedy_sorted_wrt [OF by_score_descending, of \<tau> k cs] by (simp add: nms_def by_score_def)
  have pair: "\<not> exceeds \<tau> (cand_box (nms \<tau> k cs ! i)) (cand_box (nms \<tau> k cs ! j))"
    if "i < j" "j < length (nms \<tau> k cs)" for i j
    using greedy_no_overlap [of \<tau> k "by_score cs"] that
    by (simp add: nms_def by_score_def sorted_wrt_iff_nth_less)
  have len: "length (nms \<tau> k cs) \<le> length cs"
    using greedy_length [of \<tau> k "by_score cs"] by (simp add: nms_def by_score_def)
  have bud: "length (nms \<tau> k cs) \<le> n" if "k = Some n" for n
    using greedy_budget [of \<tau> n "by_score cs"] that by (simp add: nms_def by_score_def)
  have pair': "\<not> exceeds \<tau> (cand_box (nms \<tau> k cs ! j)) (cand_box (nms \<tau> k cs ! i))"
    if "i < j" "j < length (nms \<tau> k cs)" for i j
    using pair [OF that] by (subst exceeds_commute)
  have pairs: "\<forall>i j. i < j \<and> j < length (nms \<tau> k cs) \<longrightarrow>
         \<not> exceeds \<tau> (cand_box (nms \<tau> k cs ! i)) (cand_box (nms \<tau> k cs ! j))
       \<and> \<not> exceeds \<tau> (cand_box (nms \<tau> k cs ! j)) (cand_box (nms \<tau> k cs ! i))"
  proof (intro allI impI)
    fix i j
    assume "i < j \<and> j < length (nms \<tau> k cs)"
    then have ij: "i < j" "j < length (nms \<tau> k cs)" by simp_all
    show "\<not> exceeds \<tau> (cand_box (nms \<tau> k cs ! i)) (cand_box (nms \<tau> k cs ! j))
       \<and> \<not> exceeds \<tau> (cand_box (nms \<tau> k cs ! j)) (cand_box (nms \<tau> k cs ! i))"
      by (rule conjI [OF pair [OF ij] pair' [OF ij]])
  qed
  have buds: "\<forall>n. k = Some n \<longrightarrow> length (nms \<tau> k cs) \<le> n"
    by (intro allI impI) (rule bud)
  show ?thesis by (intro conjI sub ord pairs len buds)
qed








lemmas geometry_defs = exceeds_def iou_def valid_box_def union_area_def area_def
  intersection_area_def near_origin_def shifted_def far_away_def

lemma by_score_example: "by_score [shifted, far_away, near_origin] = [near_origin, shifted, far_away]"
  by (simp add: by_score_def near_origin_def shifted_def far_away_def)

text \<open>
  The example of section 8: the second box is suppressed by the first at threshold 0.5.
\<close>

lemma nms_spec_example:
  "nms (1 / 2) None [shifted, far_away, near_origin] = [near_origin, far_away]"
  using by_score_example by (simp add: nms_def by_score_def geometry_defs)

theorem nms_guarantees_witness:
  "nms (1 / 2) (Some 5) [shifted, far_away, near_origin] = [near_origin, far_away]
   \<and> set (nms (1 / 2) (Some 5) [shifted, far_away, near_origin]) \<subseteq> {shifted, far_away, near_origin}
   \<and> sorted_wrt (\<lambda>c d. score d \<le> score c) (nms (1 / 2) (Some 5) [shifted, far_away, near_origin])
   \<and> \<not> exceeds (1 / 2) (cand_box near_origin) (cand_box far_away)
   \<and> length (nms (1 / 2) (Some 5) [shifted, far_away, near_origin]) \<le> 5"
proof -
  have run: "nms (1 / 2) (Some 5) [shifted, far_away, near_origin] = [near_origin, far_away]"
    using by_score_example by (simp add: nms_def by_score_def geometry_defs)
  from nms_guarantees [of "1 / 2" "Some 5" "[shifted, far_away, near_origin]"]
  have "set (nms (1 / 2) (Some 5) [shifted, far_away, near_origin]) \<subseteq> set [shifted, far_away, near_origin]"
    and "sorted_wrt (\<lambda>c d. score d \<le> score c) (nms (1 / 2) (Some 5) [shifted, far_away, near_origin])"
    and "0 < (1::nat) \<and> 1 < length (nms (1 / 2) (Some 5) [shifted, far_away, near_origin]) \<longrightarrow>
         \<not> exceeds (1 / 2) (cand_box (nms (1 / 2) (Some 5) [shifted, far_away, near_origin] ! 0))
              (cand_box (nms (1 / 2) (Some 5) [shifted, far_away, near_origin] ! 1))"
    and "length (nms (1 / 2) (Some 5) [shifted, far_away, near_origin]) \<le> 5"
    by blast+
  then show ?thesis by (simp add: run)
qed




end
